theory Spec2Isabelle
  imports Complex_Main "HOL-Library.Multiset"
begin

section \<open>Python values and string operations\<close>

text \<open>
  The pipeline passes company records around as Python dictionaries. The embedding makes
  a record of the keys the code reads or writes, and gives a key that may be missing (the
  code reads it with \<open>.get\<close>) an option type: \<open>None\<close> is the missing key (or the
  Python value \<open>None\<close>, which \<open>.get\<close> cannot tell apart from it when no default is
  given). Strings are byte strings; \<open>lower\<close>, \<open>strip\<close>, \<open>split\<close> and \<open>title\<close>
  act on the ASCII letters and the ASCII white space. Python floats are modelled by exact
  reals: every score the scorer adds is a multiple of one hundredth, and the integers
  compared against \<open>employee_min * 0.8\<close> are far below \<open>2 ^ 50\<close>, where the double
  precision comparison agrees with the exact one.
\<close>

datatype py_error = IndexError | AttributeError | KeyError | TypeError

text \<open>A dynamically typed value, for the one field whose type the code tests at run time.\<close>

datatype pyval = PyNone | PyBool bool | PyInt int | PyStr string

fun truthy :: "pyval \<Rightarrow> bool" where
  "truthy PyNone = False"
| "truthy (PyBool b) = b"
| "truthy (PyInt i) = (i \<noteq> 0)"
| "truthy (PyStr s) = (s \<noteq> [])"

definition ascii_upper :: string where
  "ascii_upper = ''ABCDEFGHIJKLMNOPQRSTUVWXYZ''"

definition ascii_lower :: string where
  "ascii_lower = ''abcdefghijklmnopqrstuvwxyz''"

definition lower_char :: "char \<Rightarrow> char" where
  "lower_char c = (case map_of (zip ascii_upper ascii_lower) c of None \<Rightarrow> c | Some d \<Rightarrow> d)"

definition upper_char :: "char \<Rightarrow> char" where
  "upper_char c = (case map_of (zip ascii_lower ascii_upper) c of None \<Rightarrow> c | Some d \<Rightarrow> d)"

definition is_alpha :: "char \<Rightarrow> bool" where
  "is_alpha c = (c \<in> set (ascii_upper @ ascii_lower))"

text \<open>Space, tab, line feed, vertical tab, form feed, carriage return.\<close>

definition is_space :: "char \<Rightarrow> bool" where
  "is_space c = (c \<in> set [CHR '' '', CHR 0x09, CHR 0x0A, CHR 0x0B, CHR 0x0C, CHR 0x0D])"

definition py_lower :: "string \<Rightarrow> string" where
  "py_lower s = map lower_char s"

definition py_strip :: "string \<Rightarrow> string" where
  "py_strip s = rev (dropWhile is_space (rev (dropWhile is_space s)))"

text \<open>\<open>sub in s\<close> on strings: \<open>sub\<close> occurs in \<open>s\<close> as a contiguous block.\<close>

fun starts_with :: "string \<Rightarrow> string \<Rightarrow> bool" where
  "starts_with s [] = True"
| "starts_with [] (p # ps) = False"
| "starts_with (c # cs) (p # ps) = (c = p \<and> starts_with cs ps)"

fun py_in :: "string \<Rightarrow> string \<Rightarrow> bool" where
  "py_in sub [] = (sub = [])"
| "py_in sub (c # cs) = (starts_with (c # cs) sub \<or> py_in sub cs)"

definition py_endswith :: "string \<Rightarrow> string \<Rightarrow> bool" where
  "py_endswith s suf = starts_with (rev s) (rev suf)"

text \<open>\<open>s.split()\<close>: the maximal blocks of characters that are not white space.\<close>

fun split_acc :: "string \<Rightarrow> string \<Rightarrow> string list" where
  "split_acc w [] = (if w = [] then [] else [rev w])"
| "split_acc w (c # cs) =
     (if is_space c then (if w = [] then split_acc [] cs else rev w # split_acc [] cs)
      else split_acc (c # w) cs)"

definition py_split :: "string \<Rightarrow> string list" where
  "py_split s = split_acc [] s"

text \<open>\<open>s.title()\<close>: a letter after a character that is not a letter goes to upper case,
  any other letter to lower case.\<close>

fun title_from :: "bool \<Rightarrow> string \<Rightarrow> string" where
  "title_from prev [] = []"
| "title_from prev (c # cs) =
     (if is_alpha c then (if prev then lower_char c else upper_char c) # title_from True cs
      else c # title_from False cs)"

definition py_title :: "string \<Rightarrow> string" where
  "py_title s = title_from False s"

definition py_replace_char :: "char \<Rightarrow> char \<Rightarrow> string \<Rightarrow> string" where
  "py_replace_char a b s = map (\<lambda>c. if c = a then b else c) s"

text \<open>\<open>any(p in s for p in ps)\<close>\<close>

definition any_in :: "string list \<Rightarrow> string \<Rightarrow> bool" where
  "any_in ps s = list_ex (\<lambda>p. py_in p s) ps"

section \<open>Data model\<close>

record contact =
  name :: string
  title :: string
  email :: "string option"
  linkedin :: "string option"
  contact_confidence :: "real option"
  hunter_verified :: bool

record signals =
  recent_hiring :: "bool option"
  new_funding :: "bool option"
  funding_amount :: "real option"
  funding_round :: "string option"
  job_title :: "string option"
  job_posted :: "string option"
  work_from_home :: "bool option"

record company =
  company_name :: string
  domain :: "pyval option"
  revenue :: "real option"
  industry :: "string option"
  employee_count :: "int option"
  location :: "string option"
  funding_stage :: "string option"
  tech_stack :: "string list option"
  contacts :: "contact list"
  company_signals :: "signals option"
  source :: "string list"
  confidence :: real
  smart_enriched :: "bool option"

record icp_signals =
  funding :: "bool option"
  hiring_data_roles :: "bool option"

record icp_config =
  icp_industry :: "string list option"
  geography :: "string list option"
  employee_count_min :: "int option"
  icp_signal_flags :: "icp_signals option"

definition no_signals :: signals where
  "no_signals = \<lparr>recent_hiring = None, new_funding = None, funding_amount = None,
     funding_round = None, job_title = None, job_posted = None, work_from_home = None\<rparr>"

text \<open>\<open>company.get("signals", {})\<close>\<close>

definition get_signals :: "company \<Rightarrow> signals" where
  "get_signals c = (case company_signals c of None \<Rightarrow> no_signals | Some s \<Rightarrow> s)"

text \<open>Truth values of the optional fields, as \<open>if x:\<close> and \<open>not x\<close> see them.\<close>

definition truthy_int :: "int option \<Rightarrow> bool" where
  "truthy_int v = (case v of None \<Rightarrow> False | Some i \<Rightarrow> i \<noteq> 0)"

definition truthy_real :: "real option \<Rightarrow> bool" where
  "truthy_real v = (case v of None \<Rightarrow> False | Some r \<Rightarrow> r \<noteq> 0)"

definition truthy_str :: "string option \<Rightarrow> bool" where
  "truthy_str v = (case v of None \<Rightarrow> False | Some s \<Rightarrow> s \<noteq> [])"

definition truthy_bool :: "bool option \<Rightarrow> bool" where
  "truthy_bool v = (case v of None \<Rightarrow> False | Some b \<Rightarrow> b)"

section \<open>Confidence scorer (data_processing/scoring.py)\<close>

definition word_overlap :: "string \<Rightarrow> string \<Rightarrow> bool" where
  "word_overlap target_industry company_industry =
     (set (py_split (py_lower target_industry)) \<inter> set (py_split company_industry) \<noteq> {})"

definition calculate_industry_match :: "company \<Rightarrow> icp_config \<Rightarrow> real" where
  "calculate_industry_match c icp =
     (let icp_industries = (case icp_industry icp of None \<Rightarrow> [] | Some l \<Rightarrow> l) in
      if icp_industries = [] then 0
      else
        let company_industry = py_lower (case industry c of None \<Rightarrow> [] | Some s \<Rightarrow> s) in
        if company_industry = [] then 0
        else if list_ex (\<lambda>t. py_in (py_lower t) company_industry) icp_industries then 1
        else if list_ex (\<lambda>t. word_overlap t company_industry) icp_industries then 0.5
        else 0)"

definition icp_flag :: "icp_config \<Rightarrow> (icp_signals \<Rightarrow> bool option) \<Rightarrow> bool" where
  "icp_flag icp sel =
     (case icp_signal_flags icp of None \<Rightarrow> False | Some s \<Rightarrow> truthy_bool (sel s))"

definition calculate_funding_score :: "company \<Rightarrow> icp_config \<Rightarrow> real" where
  "calculate_funding_score c icp =
     (if \<not> icp_flag icp funding then 0
      else
        let sig = get_signals c in
        if truthy_bool (new_funding sig) then
          (let amount = (case funding_amount sig of None \<Rightarrow> 0 | Some a \<Rightarrow> a) in
           if amount > 50000000 then 1
           else if amount > 10000000 then 0.8
           else 0.6)
        else if truthy_str (funding_round sig) then 0.3
        else 0)"

definition calculate_hiring_score :: "company \<Rightarrow> icp_config \<Rightarrow> real" where
  "calculate_hiring_score c icp =
     (if \<not> icp_flag icp hiring_data_roles then 0
      else if truthy_bool (recent_hiring (get_signals c)) then 1
      else 0)"

text \<open>The employee score as a function of the two numbers the code reads.\<close>

definition employee_score :: "int option \<Rightarrow> int option \<Rightarrow> real" where
  "employee_score employee_min cnt =
     (if \<not> truthy_int employee_min \<or> \<not> truthy_int cnt then 0
      else
        let m = the employee_min; n = the cnt in
        if real_of_int n \<ge> real_of_int m then 1
        else if real_of_int n \<ge> real_of_int m * 0.8 then 0.5
        else if real_of_int n \<ge> real_of_int m * 0.5 then 0.2
        else 0)"

definition calculate_employee_score :: "company \<Rightarrow> icp_config \<Rightarrow> real" where
  "calculate_employee_score c icp = employee_score (employee_count_min icp) (employee_count c)"

text \<open>\<open>round(x, 2)\<close>: to the nearest hundredth, a tie going to the even one.\<close>

definition py_round2 :: "real \<Rightarrow> real" where
  "py_round2 x =
     (let f = \<lfloor>x * 100\<rfloor>; r = x * 100 - of_int f in
      if r < 1 / 2 then of_int f / 100
      else if r > 1 / 2 then of_int (f + 1) / 100
      else if even f then of_int f / 100 else of_int (f + 1) / 100)"

definition raw_score :: "company \<Rightarrow> icp_config \<Rightarrow> real" where
  "raw_score c icp =
     (let score = 0;
          score = score + calculate_industry_match c icp * 0.4;
          score = score + calculate_funding_score c icp * 0.3;
          score = score + calculate_hiring_score c icp * 0.2;
          score = score + calculate_employee_score c icp * 0.1
      in score)"

definition score_company :: "icp_config \<Rightarrow> company \<Rightarrow> company" where
  "score_company icp c = c\<lparr>confidence := py_round2 (raw_score c icp)\<rparr>"

text \<open>
  \<open>sorted(xs, key=k, reverse=True)\<close> and \<open>xs.sort(key=k, reverse=True)\<close>: CPython reverses
  the list, sorts it stably in ascending order of the key and reverses the result.
\<close>

definition py_sorted_reverse :: "('a \<Rightarrow> real) \<Rightarrow> 'a list \<Rightarrow> 'a list" where
  "py_sorted_reverse k xs = rev (sort_key k (rev xs))"

definition calculate_confidence :: "company list \<Rightarrow> icp_config \<Rightarrow> company list" where
  "calculate_confidence companies icp =
     py_sorted_reverse confidence (map (score_company icp) companies)"

section \<open>Deduplicator (data_processing/deduplicator.py)\<close>

text \<open>
  The dictionary \<open>unique_companies\<close> keeps its keys in insertion order, and the result
  is read off in that order: an association list. \<open>fuzz.ratio\<close> comes from a library
  outside the repository and is a parameter, a function from two strings to a number
  between 0 and 100. The records are values: the embedding takes the two records of a merge
  to be distinct objects with distinct contact lists, as the records the search stage
  builds are.
\<close>

type_synonym company_dict = "(string \<times> company) list"

fun dict_set :: "string \<Rightarrow> company \<Rightarrow> company_dict \<Rightarrow> company_dict" where
  "dict_set k v [] = [(k, v)]"
| "dict_set k v ((k', v') # d) = (if k' = k then (k, v) # d else (k', v') # dict_set k v d)"

definition similarity_threshold :: int where
  "similarity_threshold = 85"

definition get_company_key :: "company \<Rightarrow> py_error + string" where
  "get_company_key c =
     (case domain c of
        None \<Rightarrow> Inr (py_strip (py_lower (company_name c)))
      | Some v \<Rightarrow>
          if truthy v then
            (case v of PyStr s \<Rightarrow> Inr (py_strip (py_lower s)) | _ \<Rightarrow> Inl AttributeError)
          else Inr (py_strip (py_lower (company_name c))))"

fun find_similar_loop :: "(string \<Rightarrow> string \<Rightarrow> int) \<Rightarrow> string \<Rightarrow> company_dict \<Rightarrow> string option" where
  "find_similar_loop ratio nm [] = None"
| "find_similar_loop ratio nm ((k, existing_company) # d) =
     (let existing_name = py_lower (company_name existing_company);
          similarity = ratio nm existing_name
      in if similarity \<ge> similarity_threshold then Some k
         else find_similar_loop ratio nm d)"

definition find_similar_company ::
    "(string \<Rightarrow> string \<Rightarrow> int) \<Rightarrow> company \<Rightarrow> company_dict \<Rightarrow> string option" where
  "find_similar_company ratio c existing_companies =
     find_similar_loop ratio (py_lower (company_name c)) existing_companies"

text \<open>\<open>d.update(e)\<close> on the signals: a key of \<open>e\<close> overrides the same key of \<open>d\<close>.\<close>

definition override :: "'a option \<Rightarrow> 'a option \<Rightarrow> 'a option" where
  "override a b = (case b of None \<Rightarrow> a | Some v \<Rightarrow> Some v)"

definition signals_update :: "signals \<Rightarrow> signals \<Rightarrow> signals" where
  "signals_update a b =
     \<lparr>recent_hiring = override (recent_hiring a) (recent_hiring b),
      new_funding = override (new_funding a) (new_funding b),
      funding_amount = override (funding_amount a) (funding_amount b),
      funding_round = override (funding_round a) (funding_round b),
      job_title = override (job_title a) (job_title b),
      job_posted = override (job_posted a) (job_posted b),
      work_from_home = override (work_from_home a) (work_from_home b)\<rparr>"

text \<open>\<open>{contact["email"] for contact in contacts if contact.get("email")}\<close>\<close>

definition existing_emails :: "contact list \<Rightarrow> string list" where
  "existing_emails cs = map (\<lambda>c. the (email c)) (filter (\<lambda>c. truthy_str (email c)) cs)"

text \<open>\<open>contact.get("email") not in existing_emails\<close>: \<open>None\<close> is in no set of strings.\<close>

definition email_not_in :: "contact \<Rightarrow> string list \<Rightarrow> bool" where
  "email_not_in c emails = (case email c of None \<Rightarrow> True | Some e \<Rightarrow> e \<notin> set emails)"

fun append_contacts :: "string list \<Rightarrow> contact list \<Rightarrow> contact list \<Rightarrow> contact list" where
  "append_contacts emails acc [] = acc"
| "append_contacts emails acc (c # cs) =
     (if email_not_in c emails then append_contacts emails (acc @ [c]) cs
      else append_contacts emails acc cs)"

text \<open>
  \<open>list(set(xs))\<close> lists the distinct elements of \<open>xs\<close> in an order Python does not fix;
  the embedding takes the order of \<open>remdups\<close>, and the theorems speak of the set only.
\<close>

definition merge_companies :: "company \<Rightarrow> company \<Rightarrow> company" where
  "merge_companies company1 company2 =
     (let merged = company1;
          merged = merged\<lparr>source := remdups (source company1 @ source company2)\<rparr>;
          merged = (case company_signals company2 of
                      None \<Rightarrow> merged
                    | Some s2 \<Rightarrow>
                        merged\<lparr>company_signals := Some (signals_update (get_signals merged) s2)\<rparr>);
          emails = existing_emails (contacts merged);
          merged = merged\<lparr>contacts := append_contacts emails (contacts merged) (contacts company2)\<rparr>;
          merged = (if \<not> truthy_real (revenue merged) \<and> truthy_real (revenue company2)
                    then merged\<lparr>revenue := revenue company2\<rparr> else merged);
          merged = (if \<not> truthy_int (employee_count merged) \<and> truthy_int (employee_count company2)
                    then merged\<lparr>employee_count := employee_count company2\<rparr> else merged);
          merged = (if \<not> truthy_str (funding_stage merged) \<and> truthy_str (funding_stage company2)
                    then merged\<lparr>funding_stage := funding_stage company2\<rparr> else merged)
      in merged)"

fun dedup_loop ::
    "(string \<Rightarrow> string \<Rightarrow> int) \<Rightarrow> company_dict \<Rightarrow> company list \<Rightarrow> py_error + company_dict" where
  "dedup_loop ratio unique_companies [] = Inr unique_companies"
| "dedup_loop ratio unique_companies (c # cs) =
     (case get_company_key c of
        Inl e \<Rightarrow> Inl e
      | Inr key \<Rightarrow>
          (case map_of unique_companies key of
             None \<Rightarrow>
               (case find_similar_company ratio c unique_companies of
                  None \<Rightarrow> dedup_loop ratio (dict_set key c unique_companies) cs
                | Some similar_key \<Rightarrow>
                    if similar_key \<noteq> [] then
                      (case map_of unique_companies similar_key of
                         None \<Rightarrow> Inl KeyError
                       | Some existing \<Rightarrow>
                           dedup_loop ratio
                             (dict_set similar_key (merge_companies existing c) unique_companies) cs)
                    else dedup_loop ratio (dict_set key c unique_companies) cs)
           | Some existing \<Rightarrow>
               dedup_loop ratio (dict_set key (merge_companies existing c) unique_companies) cs))"

definition deduplicate_companies ::
    "(string \<Rightarrow> string \<Rightarrow> int) \<Rightarrow> company list \<Rightarrow> py_error + company list" where
  "deduplicate_companies ratio companies =
     (case dedup_loop ratio [] companies of Inl e \<Rightarrow> Inl e | Inr d \<Rightarrow> Inr (map snd d))"

section \<open>Contact resolver (api_clients/hunter_client.py)\<close>

text \<open>One entry of the directory's answer, each key read with \<open>.get\<close> and a default.\<close>

record hunter_email =
  first_name :: "string option"
  last_name :: "string option"
  position :: "string option"
  email_value :: "string option"
  email_linkedin :: "string option"
  email_confidence :: "int option"

text \<open>\<open>data.get("data", {}).get("emails", [])\<close>: either key may be missing.\<close>

type_synonym hunter_response = "hunter_email list option option"

definition get_emails :: "hunter_response \<Rightarrow> hunter_email list" where
  "get_emails d = (case d of Some (Some es) \<Rightarrow> es | _ \<Rightarrow> [])"

definition str_or_empty :: "string option \<Rightarrow> string" where
  "str_or_empty v = (case v of None \<Rightarrow> [] | Some s \<Rightarrow> s)"

definition title_matches :: "string list \<Rightarrow> hunter_email \<Rightarrow> bool" where
  "title_matches target_titles email_data =
     list_ex (\<lambda>t. py_in (py_lower t) (py_lower (str_or_empty (position email_data)))) target_titles"

definition make_contact :: "hunter_email \<Rightarrow> contact" where
  "make_contact email_data =
     \<lparr>name = py_strip (str_or_empty (first_name email_data) @ '' '' @
                       str_or_empty (last_name email_data)),
      title = str_or_empty (position email_data),
      email = Some (str_or_empty (email_value email_data)),
      linkedin = Some (str_or_empty (email_linkedin email_data)),
      contact_confidence =
        Some (real_of_int (case email_confidence email_data of None \<Rightarrow> 0 | Some n \<Rightarrow> n) / 100),
      hunter_verified = True\<rparr>"

fun parse_loop :: "string list option \<Rightarrow> contact list \<Rightarrow> hunter_email list \<Rightarrow> contact list" where
  "parse_loop target_titles acc [] = acc"
| "parse_loop target_titles acc (email_data # es) =
     (if (case target_titles of None \<Rightarrow> False | Some ts \<Rightarrow> ts \<noteq> [] \<and> \<not> title_matches ts email_data)
      then parse_loop target_titles acc es
      else
        let c = make_contact email_data in
        if truthy_str (email c) then parse_loop target_titles (acc @ [c]) es
        else parse_loop target_titles acc es)"

definition parse_hunter_contacts :: "hunter_response \<Rightarrow> string list option \<Rightarrow> contact list" where
  "parse_hunter_contacts d target_titles = take 5 (parse_loop target_titles [] (get_emails d))"

text \<open>
  The HTTP request is the collaborator: it answers with a status and a decoded body, or
  raises. \<open>find_emails\<close> turns every failure into the empty list.
\<close>

datatype http_result = HttpResponse nat hunter_response | HttpException

definition find_emails ::
    "string option \<Rightarrow> (string \<Rightarrow> http_result) \<Rightarrow> string \<Rightarrow> string list option \<Rightarrow> contact list" where
  "find_emails api_key http_get dname job_titles =
     (if \<not> truthy_str api_key then []
      else
        (case http_get dname of
           HttpResponse status d \<Rightarrow>
             if status = 200 then parse_hunter_contacts d job_titles else []
         | HttpException \<Rightarrow> []))"

definition hunter_job_titles :: "string list" where
  "hunter_job_titles = [''CTO'', ''VP Engineering'', ''Chief Data Officer'', ''Head of Data'']"

text \<open>\<open>not domain or not isinstance(domain, str) or not domain.endswith('.com')\<close>,
  on \<open>company.get("domain", "")\<close>: the string that passes the gate, if any.\<close>

definition valid_domain :: "company \<Rightarrow> string option" where
  "valid_domain c =
     (case domain c of
        Some (PyStr s) \<Rightarrow> if s \<noteq> [] \<and> py_endswith s ''.com'' then Some s else None
      | _ \<Rightarrow> None)"

text \<open>The body of the loop over the companies; \<open>lookup\<close> is \<open>find_emails\<close> at this call.\<close>

definition enrich_company_with_contacts ::
    "(string \<Rightarrow> string list option \<Rightarrow> contact list) \<Rightarrow> company \<Rightarrow> company" where
  "enrich_company_with_contacts lookup c =
     (case valid_domain c of
        None \<Rightarrow> c
      | Some dname \<Rightarrow>
          let found = lookup dname (Some hunter_job_titles) in
          if found \<noteq> [] then c\<lparr>contacts := found\<rparr> else c)"

text \<open>The requests are made one after the other; \<open>http n\<close> answers the \<open>n\<close>-th record.\<close>

fun enrich_companies_with_contacts ::
    "string option \<Rightarrow> (nat \<Rightarrow> string \<Rightarrow> http_result) \<Rightarrow> nat \<Rightarrow> company list \<Rightarrow> company list" where
  "enrich_companies_with_contacts api_key http n [] = []"
| "enrich_companies_with_contacts api_key http n (c # cs) =
     enrich_company_with_contacts (find_emails api_key (http n)) c
       # enrich_companies_with_contacts api_key http (Suc n) cs"

section \<open>Attribute estimator (api_clients/smart_enricher.py)\<close>

text \<open>
  The estimator draws from Python's \<open>random\<close> module. The generator is a state passed
  along: an unbounded tape of raw draws and the position of the next one. Every sequence
  of outcomes of the module is the reading of some tape.
\<close>

type_synonym rng = "(nat \<Rightarrow> nat) \<times> nat"

definition next_raw :: "rng \<Rightarrow> nat \<times> rng" where
  "next_raw g = (fst g (snd g), (fst g, Suc (snd g)))"

text \<open>\<open>random.randint(a, b)\<close>, with \<open>a \<le> b\<close>\<close>

definition randint :: "int \<Rightarrow> int \<Rightarrow> rng \<Rightarrow> int \<times> rng" where
  "randint a b g = (let (r, g') = next_raw g in (a + int r mod (b - a + 1), g'))"

text \<open>\<open>random.choice(xs)\<close>, on a list that is not empty\<close>

definition random_choice :: "'a list \<Rightarrow> rng \<Rightarrow> 'a \<times> rng" where
  "random_choice xs g = (let (r, g') = next_raw g in (xs ! (r mod length xs), g'))"

text \<open>\<open>random.random()\<close>: 53 random bits, scaled into the unit interval\<close>

definition random_unit :: "rng \<Rightarrow> real \<times> rng" where
  "random_unit g = (let (r, g') = next_raw g in (real (r mod 2 ^ 53) / 2 ^ 53, g'))"

definition estimate_employee_count :: "string \<Rightarrow> string \<Rightarrow> rng \<Rightarrow> int \<times> rng" where
  "estimate_employee_count cname jtitle g =
     (if any_in [''corp'', ''corporation'', ''inc'', ''global'', ''international''] cname
      then randint 1000 50000 g
      else if any_in [''labs'', ''tech'', ''io'', ''startup'', ''ventures''] cname
      then randint 10 200 g
      else if any_in [''data scientist'', ''data engineer'', ''machine learning''] jtitle
      then randint 50 1000 g
      else randint 50 2000 g)"

definition estimate_revenue :: "int \<Rightarrow> string \<Rightarrow> rng \<Rightarrow> real \<times> rng" where
  "estimate_revenue ecount cname g =
     (let (revenue_per_employee, g') =
            (if any_in [''tech'', ''software'', ''saas''] cname then randint 200000 500000 g
             else if any_in [''consulting'', ''services''] cname then randint 150000 300000 g
             else randint 100000 250000 g)
      in (real_of_int (ecount * revenue_per_employee), g'))"

definition job_industry_map :: "(string \<times> string list) list" where
  "job_industry_map =
     [(''data'', [''data scientist'', ''data engineer'', ''data analyst'', ''analytics'']),
      (''ai_ml'', [''ai'', ''machine learning'', ''deep learning'', ''llm'', ''generative ai'']),
      (''software'', [''software engineer'', ''developer'', ''full stack'', ''frontend'', ''backend'']),
      (''cloud'', [''aws'', ''azure'', ''gcp'', ''cloud'', ''devops'']),
      (''fintech'', [''fintech'', ''banking'', ''payments'', ''financial'', ''trading'']),
      (''healthcare'', [''health'', ''medical'', ''pharma'', ''biotech'', ''clinical''])]"

fun job_industry_lookup :: "(string \<times> string list) list \<Rightarrow> string \<Rightarrow> string option" where
  "job_industry_lookup [] jtitle = None"
| "job_industry_lookup ((ind, keywords) # m) jtitle =
     (if any_in keywords jtitle then Some (py_title (py_replace_char CHR ''_'' CHR '' '' ind))
      else job_industry_lookup m jtitle)"

definition refine_industry :: "string \<Rightarrow> string \<Rightarrow> string \<Rightarrow> string" where
  "refine_industry cname jtitle current_industry =
     (case job_industry_lookup job_industry_map jtitle of
        Some ind \<Rightarrow> ind
      | None \<Rightarrow>
          if any_in [''bank'', ''finance'', ''capital'', ''payments''] cname then ''FinTech''
          else if any_in [''health'', ''medical'', ''care'', ''pharma''] cname then ''Healthcare''
          else if any_in [''media'', ''entertainment'', ''streaming''] cname
          then ''Media & Entertainment''
          else if any_in [''retail'', ''ecommerce'', ''shop'', ''store''] cname then ''E-commerce''
          else if current_industry \<noteq> [] then current_industry else ''Technology'')"

definition estimate_funding_stage :: "string \<Rightarrow> int \<Rightarrow> rng \<Rightarrow> string \<times> rng" where
  "estimate_funding_stage cname ecount g =
     (if ecount > 1000 then
        (let (u, g') = random_unit g in (if u > 0.3 then ''Public'' else ''Series E+'', g'))
      else if ecount > 500 then random_choice [''Series D'', ''Series E'', ''Private Equity''] g
      else if ecount > 100 then random_choice [''Series B'', ''Series C''] g
      else if ecount > 50 then random_choice [''Series A'', ''Series B''] g
      else random_choice [''Seed'', ''Series A'', ''Bootstrapped''] g)"

text \<open>Each \<open>if any(...): tech_stack.append(t)\<close> of the source is one row, in its order.\<close>

definition tech_rules :: "(string list \<times> string) list" where
  "tech_rules =
     [([''python'', ''py''], ''Python''),
      ([''java''], ''Java''),
      ([''javascript'', ''js'', ''node''], ''JavaScript''),
      ([''sql''], ''SQL''),
      ([''r''], ''R''),
      ([''aws'', ''amazon web services''], ''AWS''),
      ([''azure''], ''Azure''),
      ([''gcp'', ''google cloud''], ''GCP''),
      ([''snowflake''], ''Snowflake''),
      ([''databricks''], ''Databricks''),
      ([''spark''], ''Apache Spark''),
      ([''docker'', ''kubernetes'', ''k8s''], ''Containers'')]"

definition infer_tech_stack :: "string \<Rightarrow> string list" where
  "infer_tech_stack jtitle =
     (let job_lower = py_lower jtitle in
      take 5 (map snd (filter (\<lambda>rule. any_in (fst rule) job_lower) tech_rules)))"

text \<open>The dictionary \<open>enriched_data\<close>: a key is set or missing.\<close>

record enriched_data =
  e_employee_count :: "int option"
  e_revenue :: "real option"
  e_industry :: "string option"
  e_funding_stage :: "string option"
  e_tech_stack :: "string list option"
  e_smart_enriched :: "bool option"

definition no_enriched_data :: enriched_data where
  "no_enriched_data = \<lparr>e_employee_count = None, e_revenue = None, e_industry = None,
     e_funding_stage = None, e_tech_stack = None, e_smart_enriched = None\<rparr>"

text \<open>\<open>a or b or 100\<close> on the employee counts\<close>

definition count_or :: "int option \<Rightarrow> int option \<Rightarrow> int" where
  "count_or a b = (if truthy_int a then the a else if truthy_int b then the b else 100)"

text \<open>
  The five numbered steps of \<open>_estimate_from_job_data\<close>, each on the dictionary built
  so far and the generator.
\<close>

definition step_employee_count ::
    "company \<Rightarrow> string \<Rightarrow> string \<Rightarrow> enriched_data \<times> rng \<Rightarrow> enriched_data \<times> rng" where
  "step_employee_count c cname jtitle s =
     (if \<not> truthy_int (employee_count c)
      then (let (n, g') = estimate_employee_count cname jtitle (snd s)
            in ((fst s)\<lparr>e_employee_count := Some n\<rparr>, g'))
      else s)"

definition step_revenue ::
    "company \<Rightarrow> string \<Rightarrow> enriched_data \<times> rng \<Rightarrow> enriched_data \<times> rng" where
  "step_revenue c cname s =
     (if \<not> truthy_real (revenue c)
      then (let ecount = count_or (e_employee_count (fst s)) (employee_count c);
                (r, g') = estimate_revenue ecount cname (snd s)
            in ((fst s)\<lparr>e_revenue := Some r\<rparr>, g'))
      else s)"

definition step_industry ::
    "company \<Rightarrow> string \<Rightarrow> string \<Rightarrow> enriched_data \<times> rng \<Rightarrow> enriched_data \<times> rng" where
  "step_industry c cname jtitle s =
     (let current_industry = str_or_empty (industry c) in
      if current_industry = [] \<or> current_industry = ''Technology''
      then ((fst s)\<lparr>e_industry := Some (refine_industry cname jtitle current_industry)\<rparr>, snd s)
      else s)"

definition step_funding_stage ::
    "company \<Rightarrow> string \<Rightarrow> enriched_data \<times> rng \<Rightarrow> enriched_data \<times> rng" where
  "step_funding_stage c cname s =
     (if \<not> truthy_str (funding_stage c)
      then (let ecount = (case e_employee_count (fst s) of None \<Rightarrow> 100 | Some n \<Rightarrow> n);
                (st, g') = estimate_funding_stage cname ecount (snd s)
            in ((fst s)\<lparr>e_funding_stage := Some st\<rparr>, g'))
      else s)"

definition step_tech_stack :: "string \<Rightarrow> enriched_data \<times> rng \<Rightarrow> enriched_data \<times> rng" where
  "step_tech_stack jtitle s =
     (if jtitle \<noteq> [] then ((fst s)\<lparr>e_tech_stack := Some (infer_tech_stack jtitle)\<rparr>, snd s)
      else s)"

definition estimate_from_job_data :: "company \<Rightarrow> rng \<Rightarrow> enriched_data \<times> rng" where
  "estimate_from_job_data c g =
     (let cname = py_lower (company_name c);
          jtitle = py_lower (str_or_empty (job_title (get_signals c)));
          s = (no_enriched_data, g);
          s = step_employee_count c cname jtitle s;
          s = step_revenue c cname s;
          s = step_industry c cname jtitle s;
          s = step_funding_stage c cname s;
          s = step_tech_stack jtitle s
      in ((fst s)\<lparr>e_smart_enriched := Some True\<rparr>, snd s))"

text \<open>\<open>company.update(enriched_data)\<close>\<close>

definition company_update :: "company \<Rightarrow> enriched_data \<Rightarrow> company" where
  "company_update c ed =
     c\<lparr>employee_count := override (employee_count c) (e_employee_count ed),
       revenue := override (revenue c) (e_revenue ed),
       industry := override (industry c) (e_industry ed),
       funding_stage := override (funding_stage c) (e_funding_stage ed),
       tech_stack := override (tech_stack c) (e_tech_stack ed),
       smart_enriched := override (smart_enriched c) (e_smart_enriched ed)\<rparr>"

text \<open>The body of the loop of \<open>enrich_companies_batch\<close>, and the loop.\<close>

definition enrich_company :: "company \<Rightarrow> rng \<Rightarrow> company \<times> rng" where
  "enrich_company c g = (let (ed, g') = estimate_from_job_data c g in (company_update c ed, g'))"

fun enrich_companies_batch :: "company list \<Rightarrow> rng \<Rightarrow> company list \<times> rng" where
  "enrich_companies_batch [] g = ([], g)"
| "enrich_companies_batch (c # cs) g =
     (let (c', g') = enrich_company c g;
          (cs', g'') = enrich_companies_batch cs g'
      in (c' # cs', g''))"

section \<open>The pipeline (agent.py)\<close>

record serpapi_filters =
  filter_location :: string
  filter_signals :: "icp_signals option"

text \<open>\<open>icp_config.get("geography", ["USA"])[0]\<close> raises on the empty list.\<close>

definition generate_serpapi_filters :: "icp_config \<Rightarrow> py_error + serpapi_filters" where
  "generate_serpapi_filters icp =
     (case (case geography icp of None \<Rightarrow> [''USA''] | Some l \<Rightarrow> l) of
        [] \<Rightarrow> Inl IndexError
      | g # _ \<Rightarrow> Inr \<lparr>filter_location = g, filter_signals = icp_signal_flags icp\<rparr>)"

text \<open>
  What the pipeline calls outside itself: the job-listing search (it answers with the
  records it extracted, or raises), the contact directory and its key, the similarity
  ratio, and the random generator.
\<close>

record collaborators =
  search_companies :: "serpapi_filters \<Rightarrow> py_error + company list"
  hunter_api_key :: "string option"
  hunter_http :: "nat \<Rightarrow> string \<Rightarrow> http_result"
  fuzz_ratio :: "string \<Rightarrow> string \<Rightarrow> int"
  random_state :: rng

text \<open>\<open>try: ... except Exception: return []\<close> around the five stages.\<close>

definition search_prospects :: "collaborators \<Rightarrow> icp_config \<Rightarrow> company list" where
  "search_prospects env icp =
     (case generate_serpapi_filters icp of
        Inl e \<Rightarrow> []
      | Inr serpapi_filters \<Rightarrow>
          (case search_companies env serpapi_filters of
             Inl e \<Rightarrow> []
           | Inr companies \<Rightarrow>
               if companies = [] then []
               else
                 let (companies, g) = enrich_companies_batch companies (random_state env);
                     companies = enrich_companies_with_contacts
                                   (hunter_api_key env) (hunter_http env) 0 companies
                 in (case deduplicate_companies (fuzz_ratio env) companies of
                       Inl e \<Rightarrow> []
                     | Inr companies \<Rightarrow>
                         let companies = calculate_confidence companies icp
                         in py_sorted_reverse confidence companies)))"

section \<open>What the deduplication loop maintains\<close>

text \<open>
  \<open>settled ratio pre suf\<close>: read after the entries \<open>pre\<close>, each entry of \<open>suf\<close> is
  stored under its own key, the key is new, and no earlier entry is found similar under a
  key that is not empty. Such a dictionary is what the loop rebuilds from its own values.
\<close>

fun settled :: "(string \<Rightarrow> string \<Rightarrow> int) \<Rightarrow> company_dict \<Rightarrow> company_dict \<Rightarrow> bool" where
  "settled ratio pre [] = True"
| "settled ratio pre ((k, c) # suf) =
     (get_company_key c = Inr k \<and> map_of pre k = None
      \<and> (case find_similar_company ratio c pre of None \<Rightarrow> True | Some sk \<Rightarrow> sk = [])
      \<and> settled ratio (pre @ [(k, c)]) suf)"

text \<open>Two dictionaries with the same keys, names and domains, entry by entry.\<close>

definition same_id :: "company_dict \<Rightarrow> company_dict \<Rightarrow> bool" where
  "same_id d d' =
     list_all2 (\<lambda>p q. fst p = fst q \<and> company_name (snd p) = company_name (snd q)
                       \<and> domain (snd p) = domain (snd q)) d d'"

section \<open>Example inputs\<close>

definition ex_icp :: icp_config where
  "ex_icp = \<lparr>icp_industry = Some [''Software''], geography = Some [''USA''],
     employee_count_min = Some 100,
     icp_signal_flags = Some \<lparr>funding = Some True, hiring_data_roles = Some True\<rparr>\<rparr>"

text \<open>A record that matches the industry and the size of \<open>ex_icp\<close>, funded or not.\<close>

definition ex_company :: "string \<Rightarrow> bool \<Rightarrow> company" where
  "ex_company nm funded =
     \<lparr>company_name = nm, domain = None, revenue = None, industry = Some ''Software'',
      employee_count = Some 250, location = None, funding_stage = None, tech_stack = None,
      contacts = [], company_signals = Some (no_signals\<lparr>new_funding := Some funded,
        funding_amount := Some 60000000\<rparr>), source = [], confidence = 0, smart_enriched = None\<rparr>"

definition mk_contact :: "string \<Rightarrow> string option \<Rightarrow> contact" where
  "mk_contact nm em =
     \<lparr>name = nm, title = ''CTO'', email = em, linkedin = None, contact_confidence = Some 0,
      hunter_verified = False\<rparr>"

text \<open>A record as the search stage builds it, but for its contacts.\<close>

definition mk_company :: "string \<Rightarrow> pyval option \<Rightarrow> contact list \<Rightarrow> company" where
  "mk_company nm d cs =
     \<lparr>company_name = nm, domain = d, revenue = Some 0, industry = Some ''Technology'',
      employee_count = Some 120, location = Some ''United States'', funding_stage = Some [],
      tech_stack = None, contacts = cs,
      company_signals = Some (no_signals\<lparr>recent_hiring := Some True,
        job_title := Some ''Data Engineer''\<rparr>),
      source = [''Google Search Jobs''], confidence = 0, smart_enriched = None\<rparr>"

definition ex_a :: company where
  "ex_a = mk_company ''Acme Corp'' (Some (PyStr ''acme.com''))
     [mk_contact ''A1'' (Some ''a1@acme.com''), mk_contact ''A2'' (Some ''a2@acme.com''),
      mk_contact ''A3'' None]"

definition ex_b :: company where
  "ex_b = (mk_company ''Acme Corporation'' (Some (PyStr ''Acme.com ''))
     [mk_contact ''B1'' (Some ''a1@acme.com''), mk_contact ''B2'' (Some ''b2@acme.com''),
      mk_contact ''B3'' None, mk_contact ''B4'' (Some [])])
     \<lparr>revenue := Some 5000000, source := [''Directory'', ''Google Search Jobs'']\<rparr>"

definition ex_c :: company where
  "ex_c = mk_company ''ACME corp'' (Some (PyStr ''acme.io'')) [mk_contact ''C1'' (Some ''c1@acme.io'')]"

definition ex_d :: company where
  "ex_d = mk_company ''Globex'' None []"

text \<open>A stand-in for the similarity ratio: equal strings only.\<close>

definition ex_ratio :: "string \<Rightarrow> string \<Rightarrow> int" where
  "ex_ratio a b = (if a = b then 100 else 0)"

definition ex_dedup_in :: "company list" where
  "ex_dedup_in = [ex_a, ex_b, ex_c, ex_d]"

definition ex_dedup_out :: "company list" where
  "ex_dedup_out =
     (case deduplicate_companies ex_ratio ex_dedup_in of Inl e \<Rightarrow> [] | Inr out \<Rightarrow> out)"

definition mk_email ::
    "string option \<Rightarrow> string option \<Rightarrow> string option \<Rightarrow> string option \<Rightarrow> int option \<Rightarrow> hunter_email" where
  "mk_email f l p v n =
     \<lparr>first_name = f, last_name = l, position = p, email_value = v, email_linkedin = None,
      email_confidence = n\<rparr>"

definition ex_emails :: "hunter_email list" where
  "ex_emails =
     [mk_email (Some ''Ann'') (Some ''Lee'') (Some ''CTO'') (Some ''ann@acme.com'') (Some 92),
      mk_email (Some ''Dan'') (Some ''Roe'') (Some ''Head of Data'') (Some []) (Some 80),
      mk_email (Some ''Bob'') (Some ''Ray'') (Some ''Sales'') (Some ''bob@acme.com'') (Some 70),
      mk_email (Some ''Cy'') None (Some ''Acting cto'') (Some ''cy@acme.com'') None]"

definition ex_http :: "string \<Rightarrow> http_result" where
  "ex_http d = (if d = ''acme.com'' then HttpResponse 200 (Some (Some ex_emails))
               else HttpResponse 404 None)"

definition ex_lookup :: "string \<Rightarrow> string list option \<Rightarrow> contact list" where
  "ex_lookup = find_emails (Some ''key'') ex_http"

definition ex_rng :: rng where
  "ex_rng = (\<lambda>n. 7 * n + 3, 0)"

text \<open>A record with every estimated field populated, and a job title.\<close>

definition ex_t :: company where
  "ex_t = ex_a\<lparr>tech_stack := Some [''Rust''], revenue := Some 1000000,
     funding_stage := Some ''Seed'', industry := Some ''Robotics''\<rparr>"

definition ex_env :: collaborators where
  "ex_env = \<lparr>search_companies = (\<lambda>f. Inr [ex_a, ex_b]), hunter_api_key = None,
     hunter_http = (\<lambda>n d. HttpException), fuzz_ratio = ex_ratio,
     random_state = ex_rng\<rparr>"

section \<open>The confidence score\<close>

lemma py_round2_bounds:
  assumes "0 \<le> x" "x \<le> 1"
  shows "0 \<le> py_round2 x \<and> py_round2 x \<le> 1"
proof -
  define f where "f = \<lfloor>x * 100\<rfloor>"
  have f0: "0 \<le> f" unfolding f_def using assms by simp
  have f100: "f \<le> 100" unfolding f_def using assms by (simp add: floor_le_iff)
  have top: "x * 100 - of_int f = 0" if "f = 100"
  proof -
    from that have "100 \<le> x * 100" unfolding f_def by linarith
    with assms that show ?thesis by simp
  qed
  have a: "0 \<le> real_of_int f / 100" "real_of_int f / 100 \<le> 1" using f0 f100 by simp_all
  have b: "0 \<le> real_of_int (f + 1) / 100" using f0 by simp
  have c: "f \<noteq> 100 \<Longrightarrow> real_of_int (f + 1) / 100 \<le> 1" using f100 by simp
  show ?thesis
    using a b c top unfolding py_round2_def Let_def f_def[symmetric]
    by (cases "f = 100") auto
qed

lemma industry_match_range:
  "0 \<le> calculate_industry_match c icp \<and> calculate_industry_match c icp \<le> 1"
  by (simp add: calculate_industry_match_def Let_def)

lemma funding_score_range:
  "0 \<le> calculate_funding_score c icp \<and> calculate_funding_score c icp \<le> 1"
  by (simp add: calculate_funding_score_def Let_def)

lemma hiring_score_range:
  "0 \<le> calculate_hiring_score c icp \<and> calculate_hiring_score c icp \<le> 1"
  by (simp add: calculate_hiring_score_def)

lemma employee_score_range: "0 \<le> employee_score mn cnt \<and> employee_score mn cnt \<le> 1"
  by (simp add: employee_score_def Let_def)

lemma raw_score_eq:
  "raw_score c icp = 0.4 * calculate_industry_match c icp + 0.3 * calculate_funding_score c icp
     + 0.2 * calculate_hiring_score c icp + 0.1 * calculate_employee_score c icp"
  by (simp add: raw_score_def Let_def)

lemma raw_score_range: "0 \<le> raw_score c icp \<and> raw_score c icp \<le> 1"
proof -
  have "0 \<le> calculate_employee_score c icp \<and> calculate_employee_score c icp \<le> 1"
    by (simp add: calculate_employee_score_def employee_score_range)
  then show ?thesis
    using industry_match_range[of c icp] funding_score_range[of c icp] hiring_score_range[of c icp]
    unfolding raw_score_eq by linarith
qed

lemma set_py_sorted_reverse: "set (py_sorted_reverse k xs) = set xs"
  by (simp add: py_sorted_reverse_def)

text \<open>
  Claim C1. The records the scorer returns are the records it received, each with its
  confidence set to the weighted sum of the four sub-scores (weights 0.4, 0.3, 0.2, 0.1)
  rounded to two decimals; each sub-score lies between 0 and 1, and so does the confidence.
\<close>

theorem confidence_weighted_sum_bounded:
  "set (calculate_confidence companies icp) = score_company icp ` set companies
   \<and> confidence (score_company icp c) =
       py_round2 (0.4 * calculate_industry_match c icp + 0.3 * calculate_funding_score c icp
                  + 0.2 * calculate_hiring_score c icp + 0.1 * calculate_employee_score c icp)
   \<and> 0 \<le> calculate_industry_match c icp \<and> calculate_industry_match c icp \<le> 1
   \<and> 0 \<le> calculate_funding_score c icp \<and> calculate_funding_score c icp \<le> 1
   \<and> 0 \<le> calculate_hiring_score c icp \<and> calculate_hiring_score c icp \<le> 1
   \<and> 0 \<le> calculate_employee_score c icp \<and> calculate_employee_score c icp \<le> 1
   \<and> 0 \<le> confidence (score_company icp c) \<and> confidence (score_company icp c) \<le> 1"
proof -
  have a: "set (calculate_confidence companies icp) = score_company icp ` set companies"
    by (simp add: calculate_confidence_def set_py_sorted_reverse)
  have b: "confidence (score_company icp c) = py_round2 (raw_score c icp)"
    by (simp add: score_company_def)
  have e: "0 \<le> calculate_employee_score c icp \<and> calculate_employee_score c icp \<le> 1"
    by (simp add: calculate_employee_score_def employee_score_range)
  have r: "0 \<le> confidence (score_company icp c) \<and> confidence (score_company icp c) \<le> 1"
    unfolding b using raw_score_range[of c icp] py_round2_bounds by blast
  from b have b': "confidence (score_company icp c) =
       py_round2 (0.4 * calculate_industry_match c icp + 0.3 * calculate_funding_score c icp
                  + 0.2 * calculate_hiring_score c icp + 0.1 * calculate_employee_score c icp)"
    by (simp only: raw_score_eq)
  show ?thesis
    using a b' e r industry_match_range[of c icp] funding_score_range[of c icp]
      hiring_score_range[of c icp]
    by blast
qed

lemma ex_sub_scores:
  "calculate_industry_match (ex_company ''B'' True) ex_icp = 1
   \<and> calculate_funding_score (ex_company ''B'' True) ex_icp = 1
   \<and> calculate_hiring_score (ex_company ''B'' True) ex_icp = 0
   \<and> calculate_employee_score (ex_company ''B'' True) ex_icp = 1"
  by code_simp

theorem confidence_weighted_sum_bounded_witness:
  "confidence (score_company ex_icp (ex_company ''B'' True)) = 0.8
   \<and> calculate_industry_match (ex_company ''B'' True) ex_icp = 1
   \<and> calculate_funding_score (ex_company ''B'' True) ex_icp = 1
   \<and> calculate_hiring_score (ex_company ''B'' True) ex_icp = 0
   \<and> calculate_employee_score (ex_company ''B'' True) ex_icp = 1"
  using confidence_weighted_sum_bounded[of "[]" ex_icp "ex_company ''B'' True"] ex_sub_scores
  by (simp add: py_round2_def)



section \<open>The ranking\<close>

lemma py_sorted_reverse_desc: "sorted_wrt (\<lambda>a b. a \<ge> b) (map k (py_sorted_reverse k xs))"
proof -
  have "sorted (map k (sort_key k (rev xs)))" by simp
  then have "sorted (rev (map k (py_sorted_reverse k xs)))"
    by (simp add: py_sorted_reverse_def rev_map)
  then show ?thesis
    by (metis sorted_wrt_rev)
qed

lemma py_sorted_reverse_stable:
  "filter (\<lambda>y. k y = v) (py_sorted_reverse k xs) = filter (\<lambda>y. k y = v) xs"
  by (simp add: py_sorted_reverse_def rev_filter[symmetric] sort_key_stable)

lemma py_sorted_reverse_mset: "mset (py_sorted_reverse k xs) = mset xs"
  by (simp add: py_sorted_reverse_def)

lemma py_sorted_reverse_idem:
  "py_sorted_reverse k (py_sorted_reverse k xs) = py_sorted_reverse k xs"
proof -
  have "sorted (map k (sort_key k (rev xs)))" by simp
  then have "sort_key k (sort_key k (rev xs)) = sort_key k (rev xs)"
    by (rule sort_key_id_if_sorted)
  then show ?thesis by (simp add: py_sorted_reverse_def)
qed

text \<open>
  Claim C8. The scorer returns the scored records, the same ones with the same
  multiplicities, in descending order of confidence, and the records of one confidence
  value keep the order they came in; the second sort, in the pipeline, changes nothing.
\<close>

theorem scorer_stable_descending:
  "mset (calculate_confidence companies icp) = mset (map (score_company icp) companies)
   \<and> sorted_wrt (\<lambda>a b. a \<ge> b) (map confidence (calculate_confidence companies icp))
   \<and> filter (\<lambda>c. confidence c = v) (calculate_confidence companies icp)
       = filter (\<lambda>c. confidence c = v) (map (score_company icp) companies)
   \<and> py_sorted_reverse confidence (calculate_confidence companies icp)
       = calculate_confidence companies icp"
  unfolding calculate_confidence_def
  by (intro conjI py_sorted_reverse_desc py_sorted_reverse_stable py_sorted_reverse_mset
      py_sorted_reverse_idem)

text \<open>The example of the specification: confidences 0.5, 0.8, 0.5 in input order.\<close>

lemma ex_ranking:
  "map (\<lambda>c. (company_name c, confidence c))
     (calculate_confidence
        [ex_company ''A'' False, ex_company ''B'' True, ex_company ''C'' False] ex_icp)
   = [(''B'', 0.8), (''A'', 0.5), (''C'', 0.5)]"
  by code_simp

theorem scorer_stable_descending_witness:
  "map (\<lambda>c. (company_name c, confidence c))
     (calculate_confidence
        [ex_company ''A'' False, ex_company ''B'' True, ex_company ''C'' False] ex_icp)
   = [(''B'', 0.8), (''A'', 0.5), (''C'', 0.5)]
   \<and> filter (\<lambda>c. confidence c = 0.5)
       (calculate_confidence
          [ex_company ''A'' False, ex_company ''B'' True, ex_company ''C'' False] ex_icp)
     = filter (\<lambda>c. confidence c = 0.5)
         (map (score_company ex_icp)
            [ex_company ''A'' False, ex_company ''B'' True, ex_company ''C'' False])"
  using scorer_stable_descending
    [of "[ex_company ''A'' False, ex_company ''B'' True, ex_company ''C'' False]" ex_icp "0.5"]
    ex_ranking
  by blast

section \<open>The merge of two records\<close>

lemma append_contacts_filter:
  "append_contacts emails acc cs = acc @ filter (\<lambda>c. email_not_in c emails) cs"
  by (induction cs arbitrary: acc) simp_all

lemma existing_emails_Cons:
  "existing_emails (c # cs) =
     (if truthy_str (email c) then the (email c) # existing_emails cs else existing_emails cs)"
  by (simp add: existing_emails_def)

lemma existing_emails_Nil: "existing_emails [] = []"
  by (simp add: existing_emails_def)

lemma mem_existing_emails:
  "e \<in> set (existing_emails cs) \<longleftrightarrow> e \<noteq> [] \<and> Some e \<in> email ` set cs"
proof (induction cs)
  case Nil
  show ?case by (simp add: existing_emails_Nil)
next
  case (Cons c cs)
  show ?case
  proof (cases "email c")
    case None
    then show ?thesis using Cons by (simp add: existing_emails_Cons truthy_str_def)
  next
    case (Some s)
    then show ?thesis using Cons by (auto simp: existing_emails_Cons truthy_str_def)
  qed
qed

lemma email_not_in_existing:
  "email_not_in c (existing_emails cs) =
     (case email c of None \<Rightarrow> True | Some e \<Rightarrow> e = [] \<or> Some e \<notin> email ` set cs)"
  by (simp add: email_not_in_def mem_existing_emails split: option.splits)

lemma merge_contacts:
  "contacts (merge_companies a b) =
     contacts a @ filter (\<lambda>c. email_not_in c (existing_emails (contacts a))) (contacts b)"
  by (simp add: merge_companies_def Let_def append_contacts_filter split: option.splits)

lemma merge_source: "source (merge_companies a b) = remdups (source a @ source b)"
  by (simp add: merge_companies_def Let_def split: option.splits)

lemma merge_revenue:
  "revenue (merge_companies a b) =
     (if \<not> truthy_real (revenue a) \<and> truthy_real (revenue b) then revenue b else revenue a)"
  by (simp add: merge_companies_def Let_def split: option.splits)

lemma merge_employee_count:
  "employee_count (merge_companies a b) =
     (if \<not> truthy_int (employee_count a) \<and> truthy_int (employee_count b)
      then employee_count b else employee_count a)"
  by (simp add: merge_companies_def Let_def split: option.splits)

lemma merge_funding_stage:
  "funding_stage (merge_companies a b) =
     (if \<not> truthy_str (funding_stage a) \<and> truthy_str (funding_stage b)
      then funding_stage b else funding_stage a)"
  by (simp add: merge_companies_def Let_def split: option.splits)

lemma merge_keeps_identity:
  "company_name (merge_companies a b) = company_name a \<and> domain (merge_companies a b) = domain a"
  by (simp add: merge_companies_def Let_def split: option.splits)

text \<open>
  Claim C2. Merging record \<open>b\<close> into the kept record \<open>a\<close> gives: as sources, the union
  of the two source sets; as contacts, those of \<open>a\<close> followed by each contact of \<open>b\<close>
  whose email is missing or empty, or is no email of a contact of \<open>a\<close>; and for revenue,
  employee count and funding stage the value of \<open>a\<close> when it is not falsy, else the value
  of \<open>b\<close> when that one is not falsy (and the value of \<open>a\<close> when both are falsy).
\<close>

theorem merge_companies_fields:
  "set (source (merge_companies a b)) = set (source a) \<union> set (source b)
   \<and> contacts (merge_companies a b) =
       contacts a @ filter (\<lambda>c. case email c of None \<Rightarrow> True
                                  | Some e \<Rightarrow> e = [] \<or> Some e \<notin> email ` set (contacts a))
                     (contacts b)
   \<and> revenue (merge_companies a b) =
       (if truthy_real (revenue a) then revenue a
        else if truthy_real (revenue b) then revenue b else revenue a)
   \<and> employee_count (merge_companies a b) =
       (if truthy_int (employee_count a) then employee_count a
        else if truthy_int (employee_count b) then employee_count b else employee_count a)
   \<and> funding_stage (merge_companies a b) =
       (if truthy_str (funding_stage a) then funding_stage a
        else if truthy_str (funding_stage b) then funding_stage b else funding_stage a)"
proof -
  have "contacts (merge_companies a b) =
       contacts a @ filter (\<lambda>c. case email c of None \<Rightarrow> True
                                  | Some e \<Rightarrow> e = [] \<or> Some e \<notin> email ` set (contacts a))
                     (contacts b)"
    by (simp only: merge_contacts email_not_in_existing)
  then show ?thesis
    by (simp add: merge_source merge_revenue merge_employee_count merge_funding_stage)
qed

lemma ex_merge:
  "source (merge_companies ex_a ex_b) = [''Directory'', ''Google Search Jobs'']
   \<and> source ex_a = [''Google Search Jobs'']
   \<and> source ex_b = [''Directory'', ''Google Search Jobs'']
   \<and> map name (contacts (merge_companies ex_a ex_b)) = [''A1'', ''A2'', ''A3'', ''B2'', ''B3'', ''B4'']
   \<and> revenue (merge_companies ex_a ex_b) = Some 5000000
   \<and> employee_count (merge_companies ex_a ex_b) = Some 120
   \<and> funding_stage (merge_companies ex_a ex_b) = Some []"
  by code_simp

theorem merge_companies_fields_witness:
  "set (source (merge_companies ex_a ex_b)) = set (source ex_a) \<union> set (source ex_b)
   \<and> map name (contacts (merge_companies ex_a ex_b)) = [''A1'', ''A2'', ''A3'', ''B2'', ''B3'', ''B4'']
   \<and> revenue (merge_companies ex_a ex_b) = Some 5000000
   \<and> employee_count (merge_companies ex_a ex_b) = Some 120
   \<and> funding_stage (merge_companies ex_a ex_b) = Some []"
  using merge_companies_fields[of ex_a ex_b] ex_merge by blast

section \<open>The cap on the contacts\<close>

lemma parse_hunter_contacts_length: "length (parse_hunter_contacts d tt) \<le> 5"
  by (simp add: parse_hunter_contacts_def)

lemma find_emails_length: "length (find_emails k h d tt) \<le> 5"
  by (simp add: find_emails_def parse_hunter_contacts_length split: http_result.splits)

text \<open>
  Claim C3, as stated, fails: the merge appends without a cap. Two records of three and
  four contacts merge into a record of six.
\<close>

theorem merge_contacts_exceed_cap:
  "length (contacts ex_a) \<le> 5 \<and> length (contacts ex_b) \<le> 5
   \<and> \<not> length (contacts (merge_companies ex_a ex_b)) \<le> 5"
  by code_simp

text \<open>
  Claim C3, amended. The list the contact resolver parses has at most 5 entries, and the
  resolver leaves a record of at most 5 contacts with at most 5; the merge keeps every
  contact of the kept record and adds at most the contacts of the other one, so the merged
  record has at most as many contacts as the two records together.
\<close>

theorem contacts_cap_resolver_only:
  "length (parse_hunter_contacts d tt) \<le> 5
   \<and> (length (contacts c) \<le> 5 \<longrightarrow>
        length (contacts (enrich_company_with_contacts (find_emails k h) c)) \<le> 5)
   \<and> length (contacts a) \<le> length (contacts (merge_companies a b))
   \<and> length (contacts (merge_companies a b)) \<le> length (contacts a) + length (contacts b)"
  by (simp add: parse_hunter_contacts_length merge_contacts enrich_company_with_contacts_def
      Let_def find_emails_length split: option.splits)

lemma ex_a_contacts_length: "length (contacts ex_a) \<le> 5"
  by code_simp

theorem contacts_cap_resolver_only_witness:
  "length (contacts ex_a) \<le> 5
   \<and> length (contacts (enrich_company_with_contacts (find_emails (Some ''key'') ex_http) ex_a)) \<le> 5
   \<and> length (contacts (merge_companies ex_a ex_b)) \<le> length (contacts ex_a) + length (contacts ex_b)"
  using contacts_cap_resolver_only[of "Some None" None ex_a "Some ''key''" ex_http ex_a ex_b]
    ex_a_contacts_length
  by blast

section \<open>The contact resolver\<close>







lemma enrich_list_length:
  "length (enrich_companies_with_contacts k h n cs) = length cs"
  by (induction cs arbitrary: n) simp_all

lemma enrich_list_nth:
  "i < length cs \<Longrightarrow>
   enrich_companies_with_contacts k h n cs ! i =
     enrich_company_with_contacts (find_emails k (h (n + i))) (cs ! i)"
proof (induction cs arbitrary: n i)
  case Nil
  then show ?case by simp
next
  case (Cons c cs)
  then show ?case by (cases i) simp_all
qed

text \<open>
  Claim C7. The contact resolver returns the record as it is when the domain is missing,
  is not a string, or does not end in \<open>.com\<close>, and when the lookup finds no contact;
  otherwise it returns the record with its contacts replaced by the contacts found and
  nothing else changed. The loop treats each record of the list so, in its place.
\<close>

theorem contact_resolver_frame:
  "(domain c = None \<longrightarrow> enrich_company_with_contacts lookup c = c)
   \<and> (domain c = Some v \<and> (\<forall>s. v \<noteq> PyStr s) \<longrightarrow> enrich_company_with_contacts lookup c = c)
   \<and> (domain c = Some (PyStr s) \<and> \<not> py_endswith s ''.com'' \<longrightarrow>
        enrich_company_with_contacts lookup c = c)
   \<and> (domain c = Some (PyStr s) \<and> py_endswith s ''.com''
        \<and> lookup s (Some hunter_job_titles) = [] \<longrightarrow>
        enrich_company_with_contacts lookup c = c)
   \<and> (domain c = Some (PyStr s) \<and> py_endswith s ''.com''
        \<and> lookup s (Some hunter_job_titles) \<noteq> [] \<longrightarrow>
        enrich_company_with_contacts lookup c = c\<lparr>contacts := lookup s (Some hunter_job_titles)\<rparr>)
   \<and> length (enrich_companies_with_contacts k h n cs) = length cs
   \<and> (i < length cs \<longrightarrow>
        enrich_companies_with_contacts k h n cs ! i =
          enrich_company_with_contacts (find_emails k (h (n + i))) (cs ! i))"
proof -
  have e: "py_endswith s ''.com'' \<Longrightarrow> s \<noteq> []"
    by (auto simp: py_endswith_def)
  have a: "domain c = Some v \<Longrightarrow> (\<forall>s. v \<noteq> PyStr s) \<Longrightarrow> valid_domain c = None"
    by (cases v) (simp_all add: valid_domain_def)
  show ?thesis
    using e a
    by (auto simp: enrich_company_with_contacts_def valid_domain_def Let_def enrich_list_length
        enrich_list_nth)
qed

lemma ex_resolver:
  "domain ex_a = Some (PyStr ''acme.com'') \<and> py_endswith ''acme.com'' ''.com''
   \<and> ex_lookup ''acme.com'' (Some hunter_job_titles) \<noteq> []
   \<and> map name (ex_lookup ''acme.com'' (Some hunter_job_titles)) = [''Ann Lee'', ''Cy'']
   \<and> domain (ex_a\<lparr>domain := Some (PyInt 5)\<rparr>) = Some (PyInt 5)
   \<and> domain ex_c = Some (PyStr ''acme.io'') \<and> \<not> py_endswith ''acme.io'' ''.com''
   \<and> domain ex_d = None"
  by code_simp

theorem contact_resolver_frame_witness:
  "enrich_company_with_contacts ex_lookup ex_a =
     ex_a\<lparr>contacts := ex_lookup ''acme.com'' (Some hunter_job_titles)\<rparr>
   \<and> map name (ex_lookup ''acme.com'' (Some hunter_job_titles)) = [''Ann Lee'', ''Cy'']
   \<and> enrich_company_with_contacts ex_lookup (ex_a\<lparr>domain := Some (PyInt 5)\<rparr>) =
       ex_a\<lparr>domain := Some (PyInt 5)\<rparr>
   \<and> enrich_company_with_contacts ex_lookup ex_c = ex_c
   \<and> enrich_company_with_contacts ex_lookup ex_d = ex_d"
proof -
  have 1: "enrich_company_with_contacts ex_lookup ex_a =
     ex_a\<lparr>contacts := ex_lookup ''acme.com'' (Some hunter_job_titles)\<rparr>"
    using contact_resolver_frame[of ex_a ex_lookup PyNone "''acme.com''"] ex_resolver by blast
  have "\<forall>s. PyInt 5 \<noteq> PyStr s" by simp
  then have 2: "enrich_company_with_contacts ex_lookup (ex_a\<lparr>domain := Some (PyInt 5)\<rparr>) =
       ex_a\<lparr>domain := Some (PyInt 5)\<rparr>"
    using contact_resolver_frame[of "ex_a\<lparr>domain := Some (PyInt 5)\<rparr>" ex_lookup "PyInt 5"]
      ex_resolver by blast
  have 3: "enrich_company_with_contacts ex_lookup ex_c = ex_c"
    using contact_resolver_frame[of ex_c ex_lookup PyNone "''acme.io''"] ex_resolver by blast
  have 4: "enrich_company_with_contacts ex_lookup ex_d = ex_d"
    using contact_resolver_frame[of ex_d ex_lookup] ex_resolver by blast
  show ?thesis using 1 2 3 4 ex_resolver by blast
qed

section \<open>The attribute estimator\<close>

lemma step_employee_count_fields:
  "e_revenue (fst (step_employee_count c cn jt s)) = e_revenue (fst s)
   \<and> e_industry (fst (step_employee_count c cn jt s)) = e_industry (fst s)
   \<and> e_funding_stage (fst (step_employee_count c cn jt s)) = e_funding_stage (fst s)
   \<and> e_tech_stack (fst (step_employee_count c cn jt s)) = e_tech_stack (fst s)
   \<and> (truthy_int (employee_count c) \<longrightarrow>
        e_employee_count (fst (step_employee_count c cn jt s)) = e_employee_count (fst s))"
  by (simp add: step_employee_count_def case_prod_beta)

lemma step_revenue_fields:
  "e_employee_count (fst (step_revenue c cn s)) = e_employee_count (fst s)
   \<and> e_industry (fst (step_revenue c cn s)) = e_industry (fst s)
   \<and> e_funding_stage (fst (step_revenue c cn s)) = e_funding_stage (fst s)
   \<and> e_tech_stack (fst (step_revenue c cn s)) = e_tech_stack (fst s)
   \<and> (truthy_real (revenue c) \<longrightarrow> e_revenue (fst (step_revenue c cn s)) = e_revenue (fst s))"
  by (simp add: step_revenue_def case_prod_beta Let_def)

lemma step_industry_fields:
  "e_employee_count (fst (step_industry c cn jt s)) = e_employee_count (fst s)
   \<and> e_revenue (fst (step_industry c cn jt s)) = e_revenue (fst s)
   \<and> e_funding_stage (fst (step_industry c cn jt s)) = e_funding_stage (fst s)
   \<and> e_tech_stack (fst (step_industry c cn jt s)) = e_tech_stack (fst s)
   \<and> (truthy_str (industry c) \<and> industry c \<noteq> Some ''Technology'' \<longrightarrow>
        e_industry (fst (step_industry c cn jt s)) = e_industry (fst s))"
  by (auto simp: step_industry_def Let_def str_or_empty_def truthy_str_def split: option.splits)

lemma step_funding_stage_fields:
  "e_employee_count (fst (step_funding_stage c cn s)) = e_employee_count (fst s)
   \<and> e_revenue (fst (step_funding_stage c cn s)) = e_revenue (fst s)
   \<and> e_industry (fst (step_funding_stage c cn s)) = e_industry (fst s)
   \<and> e_tech_stack (fst (step_funding_stage c cn s)) = e_tech_stack (fst s)
   \<and> (truthy_str (funding_stage c) \<longrightarrow>
        e_funding_stage (fst (step_funding_stage c cn s)) = e_funding_stage (fst s))"
  by (simp add: step_funding_stage_def case_prod_beta Let_def)

lemma step_tech_stack_fields:
  "e_employee_count (fst (step_tech_stack jt s)) = e_employee_count (fst s)
   \<and> e_revenue (fst (step_tech_stack jt s)) = e_revenue (fst s)
   \<and> e_industry (fst (step_tech_stack jt s)) = e_industry (fst s)
   \<and> e_funding_stage (fst (step_tech_stack jt s)) = e_funding_stage (fst s)
   \<and> e_tech_stack (fst (step_tech_stack jt s)) =
       (if jt \<noteq> [] then Some (infer_tech_stack jt) else e_tech_stack (fst s))"
  by (simp add: step_tech_stack_def)

lemmas step_fields = step_employee_count_fields step_revenue_fields step_industry_fields
  step_funding_stage_fields step_tech_stack_fields

lemma est_employee_count:
  "truthy_int (employee_count c) \<Longrightarrow> e_employee_count (fst (estimate_from_job_data c g)) = None"
  by (simp add: estimate_from_job_data_def Let_def step_fields no_enriched_data_def)

lemma est_revenue:
  "truthy_real (revenue c) \<Longrightarrow> e_revenue (fst (estimate_from_job_data c g)) = None"
  by (simp add: estimate_from_job_data_def Let_def step_fields no_enriched_data_def)

lemma est_funding_stage:
  "truthy_str (funding_stage c) \<Longrightarrow> e_funding_stage (fst (estimate_from_job_data c g)) = None"
  by (simp add: estimate_from_job_data_def Let_def step_fields no_enriched_data_def)

lemma est_industry:
  "truthy_str (industry c) \<Longrightarrow> industry c \<noteq> Some ''Technology'' \<Longrightarrow>
     e_industry (fst (estimate_from_job_data c g)) = None"
  by (simp add: estimate_from_job_data_def Let_def step_fields no_enriched_data_def)

lemma est_tech_stack:
  "e_tech_stack (fst (estimate_from_job_data c g)) =
     (if py_lower (str_or_empty (job_title (get_signals c))) \<noteq> []
      then Some (infer_tech_stack (py_lower (str_or_empty (job_title (get_signals c)))))
      else None)"
  by (simp add: estimate_from_job_data_def Let_def step_fields no_enriched_data_def)

lemma est_smart_enriched:
  "e_smart_enriched (fst (estimate_from_job_data c g)) = Some True"
  by (simp add: estimate_from_job_data_def Let_def)

lemma override_None: "override a None = a"
  by (simp add: override_def)

lemma override_Some: "override a (Some v) = Some v"
  by (simp add: override_def)

lemma enrich_company_eq:
  "fst (enrich_company c g) = company_update c (fst (estimate_from_job_data c g))"
  by (simp add: enrich_company_def case_prod_beta)

lemma batch_length: "length (fst (enrich_companies_batch cs g)) = length cs"
  by (induction cs arbitrary: g) (simp_all add: case_prod_beta)

lemma batch_nth:
  "i < length cs \<Longrightarrow>
   \<exists>g'. fst (enrich_companies_batch cs g) ! i = fst (enrich_company (cs ! i) g')"
proof (induction cs arbitrary: g i)
  case Nil
  then show ?case by simp
next
  case (Cons c cs)
  show ?case
  proof (cases i)
    case 0
    then show ?thesis by (intro exI[of _ g]) (simp add: case_prod_beta)
  next
    case (Suc j)
    with Cons.prems have "j < length cs" by simp
    from Cons.IH[OF this, of "snd (enrich_company c g)"] Suc
    show ?thesis by (simp add: case_prod_beta)
  qed
qed

text \<open>
  Claim C5, as stated, fails for the tech stack: whenever the record has a job title the
  estimator derives the tech stack from it and replaces the one the record came with.
\<close>

theorem estimator_overwrites_tech_stack:
  "tech_stack ex_t = Some [''Rust'']
   \<and> tech_stack (fst (enrich_company ex_t ex_rng)) = Some [''R'']"
  by code_simp

text \<open>
  Claim C5, amended. The estimator leaves employee count, revenue and funding stage as they
  are when they are populated, and the industry when it is populated and not the default
  \<open>Technology\<close>; it sets the mark \<open>smart_enriched\<close>; it replaces the tech stack by the
  one inferred from the job title when the job title is not empty, and leaves it otherwise;
  it changes no other field. The batch treats each record of the list so, in its place.
\<close>

theorem attribute_estimator_frame:
  "(truthy_int (employee_count c) \<longrightarrow>
      employee_count (fst (enrich_company c g)) = employee_count c)
   \<and> (truthy_real (revenue c) \<longrightarrow> revenue (fst (enrich_company c g)) = revenue c)
   \<and> (truthy_str (funding_stage c) \<longrightarrow>
        funding_stage (fst (enrich_company c g)) = funding_stage c)
   \<and> (truthy_str (industry c) \<and> industry c \<noteq> Some ''Technology'' \<longrightarrow>
        industry (fst (enrich_company c g)) = industry c)
   \<and> tech_stack (fst (enrich_company c g)) =
       (if py_lower (str_or_empty (job_title (get_signals c))) \<noteq> []
        then Some (infer_tech_stack (py_lower (str_or_empty (job_title (get_signals c)))))
        else tech_stack c)
   \<and> smart_enriched (fst (enrich_company c g)) = Some True
   \<and> company_name (fst (enrich_company c g)) = company_name c
   \<and> domain (fst (enrich_company c g)) = domain c
   \<and> location (fst (enrich_company c g)) = location c
   \<and> contacts (fst (enrich_company c g)) = contacts c
   \<and> company_signals (fst (enrich_company c g)) = company_signals c
   \<and> source (fst (enrich_company c g)) = source c
   \<and> confidence (fst (enrich_company c g)) = confidence c
   \<and> length (fst (enrich_companies_batch cs g)) = length cs
   \<and> (i < length cs \<longrightarrow>
        (\<exists>g'. fst (enrich_companies_batch cs g) ! i = fst (enrich_company (cs ! i) g')))"
proof -
  let ?c' = "fst (enrich_company c g)"
  have 1: "truthy_int (employee_count c) \<longrightarrow> employee_count ?c' = employee_count c"
    by (simp add: enrich_company_eq company_update_def est_employee_count override_None)
  have 2: "truthy_real (revenue c) \<longrightarrow> revenue ?c' = revenue c"
    by (simp add: enrich_company_eq company_update_def est_revenue override_None)
  have 3: "truthy_str (funding_stage c) \<longrightarrow> funding_stage ?c' = funding_stage c"
    by (simp add: enrich_company_eq company_update_def est_funding_stage override_None)
  have 4: "truthy_str (industry c) \<and> industry c \<noteq> Some ''Technology'' \<longrightarrow>
        industry ?c' = industry c"
    by (simp add: enrich_company_eq company_update_def est_industry override_None)
  have 5: "tech_stack ?c' =
       (if py_lower (str_or_empty (job_title (get_signals c))) \<noteq> []
        then Some (infer_tech_stack (py_lower (str_or_empty (job_title (get_signals c)))))
        else tech_stack c)"
    by (simp add: enrich_company_eq company_update_def est_tech_stack override_None override_Some)
  have 6: "smart_enriched ?c' = Some True"
    by (simp add: enrich_company_eq company_update_def est_smart_enriched override_Some)
  have 7: "company_name ?c' = company_name c \<and> domain ?c' = domain c
      \<and> location ?c' = location c \<and> contacts ?c' = contacts c
      \<and> company_signals ?c' = company_signals c \<and> source ?c' = source c
      \<and> confidence ?c' = confidence c"
    by (simp add: enrich_company_eq company_update_def)
  have 8: "length (fst (enrich_companies_batch cs g)) = length cs"
    by (rule batch_length)
  have 9: "i < length cs \<longrightarrow>
        (\<exists>g'. fst (enrich_companies_batch cs g) ! i = fst (enrich_company (cs ! i) g'))"
    using batch_nth[of i cs g] by blast
  show ?thesis
    using 1 2 3 4 5 6 7 8 9 by blast
qed

lemma ex_t_populated:
  "truthy_int (employee_count ex_t) \<and> truthy_real (revenue ex_t)
   \<and> truthy_str (funding_stage ex_t) \<and> truthy_str (industry ex_t)
   \<and> industry ex_t \<noteq> Some ''Technology''
   \<and> employee_count ex_t = Some 120 \<and> revenue ex_t = Some 1000000
   \<and> funding_stage ex_t = Some ''Seed'' \<and> industry ex_t = Some ''Robotics''"
  by code_simp

theorem attribute_estimator_frame_witness:
  "truthy_int (employee_count ex_t) \<and> truthy_real (revenue ex_t)
   \<and> truthy_str (funding_stage ex_t) \<and> truthy_str (industry ex_t)
   \<and> industry ex_t \<noteq> Some ''Technology''
   \<and> employee_count (fst (enrich_company ex_t ex_rng)) = Some 120
   \<and> revenue (fst (enrich_company ex_t ex_rng)) = Some 1000000
   \<and> funding_stage (fst (enrich_company ex_t ex_rng)) = Some ''Seed''
   \<and> industry (fst (enrich_company ex_t ex_rng)) = Some ''Robotics''
   \<and> smart_enriched (fst (enrich_company ex_t ex_rng)) = Some True"
  using attribute_estimator_frame[of ex_t ex_rng "[ex_t]" 0] ex_t_populated
  by (simp add: truthy_int_def truthy_real_def truthy_str_def)

section \<open>The pipeline on an empty geography\<close>

text \<open>
  Claim C10. When the profile has the key \<open>geography\<close> with the empty list, generating
  the search filters raises \<open>IndexError\<close> and \<open>search_prospects\<close>, which catches every
  exception of the stages, returns the empty list.
\<close>

theorem empty_geography_returns_empty:
  "geography icp = Some [] \<Longrightarrow>
     generate_serpapi_filters icp = Inl IndexError \<and> search_prospects env icp = []"
  by (simp add: generate_serpapi_filters_def search_prospects_def)

text \<open>With the same collaborators and a geography, the pipeline returns a prospect.\<close>

lemma ex_pipeline: "map company_name (search_prospects ex_env ex_icp) = [''Acme Corp'']"
  by code_simp

theorem empty_geography_returns_empty_witness:
  "geography (ex_icp\<lparr>geography := Some []\<rparr>) = Some []
   \<and> generate_serpapi_filters (ex_icp\<lparr>geography := Some []\<rparr>) = Inl IndexError
   \<and> search_prospects ex_env (ex_icp\<lparr>geography := Some []\<rparr>) = []
   \<and> map company_name (search_prospects ex_env ex_icp) = [''Acme Corp'']"
  using empty_geography_returns_empty[of "ex_icp\<lparr>geography := Some []\<rparr>" ex_env] ex_pipeline
  by simp

section \<open>Deduplicating twice\<close>

lemma dict_set_fresh: "map_of d k = None \<Longrightarrow> dict_set k v d = d @ [(k, v)]"
  by (induction d) (auto split: if_splits)

lemma same_id_refl: "same_id d d"
  by (simp add: same_id_def list_all2_refl)

lemma same_id_append: "same_id a a' \<Longrightarrow> same_id b b' \<Longrightarrow> same_id (a @ b) (a' @ b')"
  by (simp add: same_id_def list_all2_appendI)

lemma same_id_Cons:
  "same_id ((k, c) # d) ((k', c') # d') \<longleftrightarrow>
     k = k' \<and> company_name c = company_name c' \<and> domain c = domain c' \<and> same_id d d'"
  by (auto simp: same_id_def)

lemma same_id_dict_set:
  "map_of d k = Some existing \<Longrightarrow> company_name v = company_name existing \<Longrightarrow>
   domain v = domain existing \<Longrightarrow> same_id d (dict_set k v d)"
proof (induction d)
  case Nil
  then show ?case by simp
next
  case (Cons p d)
  obtain k' c' where p: "p = (k', c')" by (cases p)
  show ?case
  proof (cases "k' = k")
    case True
    with Cons.prems p show ?thesis by (simp add: same_id_Cons same_id_refl)
  next
    case False
    with Cons p show ?thesis by (simp add: same_id_Cons)
  qed
qed

lemma same_id_map_of: "same_id d d' \<Longrightarrow> (map_of d k = None) = (map_of d' k = None)"
  unfolding same_id_def
  by (induction d d' rule: list_all2_induct) auto

lemma same_id_find_similar:
  "same_id d d' \<Longrightarrow> find_similar_loop ratio nm d = find_similar_loop ratio nm d'"
  unfolding same_id_def
proof (induction d d' rule: list_all2_induct)
  case Nil
  show ?case by simp
next
  case (Cons p d q d')
  obtain k c where p: "p = (k, c)" by (cases p)
  obtain k' c' where q: "q = (k', c')" by (cases q)
  from Cons p q show ?case by (simp add: Let_def)
qed

lemma get_company_key_cong:
  assumes "company_name c = company_name c'" "domain c = domain c'"
  shows "get_company_key c = get_company_key c'"
  unfolding get_company_key_def assms by (rule refl)

lemma settled_same_id:
  "same_id suf suf' \<Longrightarrow> same_id pre pre' \<Longrightarrow> settled ratio pre suf \<Longrightarrow> settled ratio pre' suf'"
  unfolding same_id_def[of suf suf']
proof (induction suf suf' arbitrary: pre pre' rule: list_all2_induct)
  case Nil
  show ?case by simp
next
  case (Cons p suf q suf')
  obtain k c where p: "p = (k, c)" by (cases p)
  obtain k' c' where q: "q = (k', c')" by (cases q)
  from Cons.hyps(1) p q have id: "k = k'" "company_name c = company_name c'" "domain c = domain c'"
    by simp_all
  from Cons.prems(2) p have s: "get_company_key c = Inr k" "map_of pre k = None"
    "(case find_similar_company ratio c pre of None \<Rightarrow> True | Some sk \<Rightarrow> sk = [])"
    "settled ratio (pre @ [(k, c)]) suf"
    by simp_all
  have 1: "get_company_key c' = Inr k'"
    using s(1) id get_company_key_cong[of c c'] by simp
  have 2: "map_of pre' k' = None"
    using s(2) id same_id_map_of[OF Cons.prems(1)] by simp
  have 3: "find_similar_company ratio c' pre' = find_similar_company ratio c pre"
    using same_id_find_similar[OF Cons.prems(1)] id by (simp add: find_similar_company_def)
  have "same_id (pre @ [(k, c)]) (pre' @ [(k', c')])"
    using Cons.prems(1) id by (intro same_id_append) (simp_all add: same_id_def)
  from Cons.IH[OF this s(4)] have 4: "settled ratio (pre' @ [(k', c')]) suf'" .
  show ?case using 1 2 3 4 s(3) q by simp
qed

lemma settled_snoc:
  "settled ratio pre (suf @ [(k, c)]) \<longleftrightarrow>
     settled ratio pre suf \<and> get_company_key c = Inr k \<and> map_of (pre @ suf) k = None
     \<and> (case find_similar_company ratio c (pre @ suf) of None \<Rightarrow> True | Some sk \<Rightarrow> sk = [])"
proof (induction suf arbitrary: pre)
  case Nil
  show ?case by simp
next
  case (Cons p suf)
  obtain k' c' where p: "p = (k', c')" by (cases p)
  show ?case using Cons[of "pre @ [(k', c')]"] p by auto
qed

lemma replay:
  "settled ratio pre suf \<Longrightarrow> dedup_loop ratio pre (map snd suf) = Inr (pre @ suf)"
proof (induction suf arbitrary: pre)
  case Nil
  show ?case by simp
next
  case (Cons p suf)
  obtain k c where p: "p = (k, c)" by (cases p)
  from Cons.prems p have s: "get_company_key c = Inr k" "map_of pre k = None"
    "(case find_similar_company ratio c pre of None \<Rightarrow> True | Some sk \<Rightarrow> sk = [])"
    "settled ratio (pre @ [(k, c)]) suf"
    by simp_all
  from Cons.IH[OF s(4)] have ih: "dedup_loop ratio (pre @ [(k, c)]) (map snd suf) = Inr (pre @ p # suf)"
    using p by simp
  show ?case
    using s(1,2,3) ih p by (simp add: dict_set_fresh split: option.splits)
qed

lemma dedup_loop_settled:
  "settled ratio [] d0 \<Longrightarrow> dedup_loop ratio d0 cs = Inr d \<Longrightarrow> settled ratio [] d"
proof (induction cs arbitrary: d0)
  case Nil
  then show ?case by simp
next
  case (Cons c cs)
  from Cons.prems(2) obtain key where key: "get_company_key c = Inr key"
    by (cases "get_company_key c") simp_all
  have merged: "settled ratio [] (dict_set k (merge_companies existing c) d0)"
    if "map_of d0 k = Some existing" for k existing
  proof -
    have "same_id d0 (dict_set k (merge_companies existing c) d0)"
      using that by (intro same_id_dict_set) (simp_all add: merge_keeps_identity)
    from settled_same_id[OF this same_id_refl Cons.prems(1)] show ?thesis .
  qed
  have fresh: "settled ratio [] (dict_set key c d0)"
    if "map_of d0 key = None"
       "(case find_similar_company ratio c d0 of None \<Rightarrow> True | Some sk \<Rightarrow> sk = [])"
    using that key Cons.prems(1) settled_snoc[of ratio "[]" d0 key c]
    by (simp add: dict_set_fresh)
  show ?case
  proof (cases "map_of d0 key")
    case (Some existing)
    with Cons.prems(2) key
    have "dedup_loop ratio (dict_set key (merge_companies existing c) d0) cs = Inr d" by simp
    from Cons.IH[OF merged[OF Some] this] show ?thesis .
  next
    case None
    show ?thesis
    proof (cases "find_similar_company ratio c d0")
      case nf: None
      with Cons.prems(2) key None
      have "dedup_loop ratio (dict_set key c d0) cs = Inr d" by simp
      from Cons.IH[OF fresh this] None nf show ?thesis by simp
    next
      case (Some sk)
      show ?thesis
      proof (cases "sk = []")
        case True
        with Cons.prems(2) key None Some
        have "dedup_loop ratio (dict_set key c d0) cs = Inr d" by simp
        from Cons.IH[OF fresh this] None Some True show ?thesis by simp
      next
        case False
        with Cons.prems(2) key None Some obtain existing where
          ex: "map_of d0 sk = Some existing"
          by (cases "map_of d0 sk") simp_all
        with Cons.prems(2) key None Some False
        have "dedup_loop ratio (dict_set sk (merge_companies existing c) d0) cs = Inr d" by simp
        from Cons.IH[OF merged[OF ex] this] show ?thesis .
      qed
    qed
  qed
qed

text \<open>
  Claim C4. When the deduplicator returns a list, the deduplicator applied to that list
  returns the same list: no record of it is merged into another.
\<close>

theorem deduplicate_idempotent:
  "deduplicate_companies ratio companies = Inr out \<Longrightarrow>
     deduplicate_companies ratio out = Inr out"
proof -
  assume a: "deduplicate_companies ratio companies = Inr out"
  then obtain d where d: "dedup_loop ratio [] companies = Inr d" "out = map snd d"
    by (auto simp: deduplicate_companies_def split: sum.splits)
  have "settled ratio [] d"
    using dedup_loop_settled[OF _ d(1)] by simp
  from replay[OF this] d(2) show ?thesis
    by (simp add: deduplicate_companies_def)
qed

lemma ex_dedup:
  "deduplicate_companies ex_ratio ex_dedup_in = Inr ex_dedup_out
   \<and> map company_name ex_dedup_in = [''Acme Corp'', ''Acme Corporation'', ''ACME corp'', ''Globex'']
   \<and> map company_name ex_dedup_out = [''Acme Corp'', ''Globex'']"
  by code_simp

theorem deduplicate_idempotent_witness:
  "deduplicate_companies ex_ratio ex_dedup_in = Inr ex_dedup_out
   \<and> map company_name ex_dedup_out = [''Acme Corp'', ''Globex'']
   \<and> deduplicate_companies ex_ratio ex_dedup_out = Inr ex_dedup_out"
  using deduplicate_idempotent[of ex_ratio ex_dedup_in ex_dedup_out] ex_dedup
  by blast

end
